theory Spec2Isabelle
  imports Complex_Main
begin

section \<open>The diagram generator \<^verbatim>\<open>scripts/generate-architecture-diagram.py\<close>\<close>

text \<open>
  The script is straight-line Python: it creates one figure with one axes, calls two
  helper functions (\<^verbatim>\<open>create_component\<close>, \<^verbatim>\<open>create_arrow\<close>) and \<^verbatim>\<open>ax.text\<close> with
  literal arguments, saves the figure twice and prints two lines.

  Coordinates are Python floats. Every literal of the layout is a multiple of 0.25 of
  small magnitude and the only arithmetic is \<^verbatim>\<open>x + width/2\<close>, \<^verbatim>\<open>y + height/2\<close>,
  \<^verbatim>\<open>y + 1\<close> and \<^verbatim>\<open>y + 0.5\<close>, all of it exact in binary floating point, so the
  coordinates are modelled as rationals. The literals \<^verbatim>\<open>0.05\<close>, \<^verbatim>\<open>0.2\<close>, \<^verbatim>\<open>0.3\<close> and
  \<^verbatim>\<open>0.7\<close> are only passed on, never computed with.

  A Python \<^verbatim>\<open>str\<close> is a sequence of code points. Keys, colours and option values are
  ASCII and are modelled as \<^typ>\<open>string\<close>; the labels contain emoji and are modelled as
  lists of code points.
\<close>

subsection \<open>Data\<close>

type_synonym ustr = "nat list"

definition asc :: "string \<Rightarrow> ustr" where
  "asc s = map of_char s"

type_synonym point = "rat \<times> rat"

datatype error = KeyError string | OSError string | UnicodeEncodeError nat

record fancy_bbox_patch =
  xy :: point
  width :: rat
  height :: rat
  boxstyle :: string
  facecolor :: string
  edgecolor :: string
  linewidth :: rat

record connection_patch =
  xyA :: point
  xyB :: point
  coordsA :: string
  coordsB :: string
  arrowstyle :: string
  shrinkA :: rat
  shrinkB :: rat
  mutation_scale :: rat
  fc :: string
  ec :: string
  alpha :: rat

record bbox_props =
  bb_boxstyle :: string
  bb_facecolor :: string
  bb_edgecolor :: string

record text_artist =
  pos :: point
  text_s :: ustr
  ha :: string
  va :: string
  fontsize :: rat
  weight :: "string option"
  wrap :: bool
  color :: "string option"
  bbox :: "bbox_props option"

datatype artist =
  FancyBboxPatch fancy_bbox_patch
| ConnectionPatch connection_patch
| Text text_artist

text \<open>
  The axes: its data limits, whether the axis decorations are drawn, and the artists added
  to it, in the order they were added.
\<close>

record axes =
  xlim :: point
  ylim :: point
  axis_on :: bool
  children :: "artist list"

subsection \<open>Actions: mutation with exceptions\<close>

text \<open>
  A statement mutates an object and may raise. An action takes the state and returns the
  state it leaves behind together with \<open>Inr ()\<close>, or with \<open>Inl e\<close> when it raised \<open>e\<close>;
  the state returned with an error is the one at the moment of the raise, which is what
  a caller holding the same object would see.
\<close>

type_synonym 'st action = "'st \<Rightarrow> (error + unit) \<times> 'st"

fun seq :: "'st action list \<Rightarrow> 'st action" where
  "seq [] st = (Inr (), st)"
| "seq (a # as) st =
     (case a st of
        (Inl e, st') \<Rightarrow> (Inl e, st')
      | (Inr _, st') \<Rightarrow> seq as st')"

subsection \<open>The colour table\<close>

definition colors :: "string \<rightharpoonup> string" where
  "colors = map_of
     [(''frontend'', ''#E8F4FD''),
      (''frontend_border'', ''#1976D2''),
      (''state'', ''#FFF3E0''),
      (''state_border'', ''#F57C00''),
      (''api'', ''#E8F5E8''),
      (''api_border'', ''#388E3C''),
      (''ai'', ''#F3E5F5''),
      (''ai_border'', ''#7B1FA2''),
      (''data'', ''#FFF8E1''),
      (''data_border'', ''#FBC02D''),
      (''arrow'', ''#666666'')]"

text \<open>\<^verbatim>\<open>colors[k]\<close>: the continuation gets the value, a missing key raises \<^verbatim>\<open>KeyError\<close>.\<close>

definition colors_getitem :: "string \<Rightarrow> (string \<Rightarrow> 'st action) \<Rightarrow> 'st action" where
  "colors_getitem k f st =
     (case colors k of
        None \<Rightarrow> (Inl (KeyError k), st)
      | Some c \<Rightarrow> f c st)"

subsection \<open>Drawing on the axes\<close>

definition add_patch :: "artist \<Rightarrow> axes action" where
  "add_patch p ax = (Inr (), ax\<lparr>children := children ax @ [p]\<rparr>)"

definition ax_text ::
  "rat \<Rightarrow> rat \<Rightarrow> ustr \<Rightarrow> string \<Rightarrow> string \<Rightarrow> rat \<Rightarrow> string option \<Rightarrow> bool \<Rightarrow>
   string option \<Rightarrow> bbox_props option \<Rightarrow> axes action" where
  "ax_text x y str h v fs w wr col bb ax =
     (Inr (), ax\<lparr>children := children ax @
        [Text \<lparr>pos = (x, y), text_s = str, ha = h, va = v, fontsize = fs, weight = w,
               wrap = wr, color = col, bbox = bb\<rparr>]\<rparr>)"

text \<open>
  \<^verbatim>\<open>create_component(x, y, width, height, text, color_key, ax, fontsize=9)\<close>. Python
  evaluates the arguments of the \<^verbatim>\<open>FancyBboxPatch\<close> call from left to right before the
  call, so \<^verbatim>\<open>colors[color_key]\<close> is looked up first, then
  \<^verbatim>\<open>colors[f"{color_key}_border"]\<close>, and only then is the patch built and added.
\<close>

definition create_component ::
  "rat \<Rightarrow> rat \<Rightarrow> rat \<Rightarrow> rat \<Rightarrow> ustr \<Rightarrow> string \<Rightarrow> rat \<Rightarrow> axes action" where
  "create_component x y wd ht label color_key fs =
     colors_getitem color_key (\<lambda>face.
     colors_getitem (color_key @ ''_border'') (\<lambda>edge.
       seq [add_patch (FancyBboxPatch
              \<lparr>xy = (x, y), width = wd, height = ht, boxstyle = ''round,pad=0.05'',
               facecolor = face, edgecolor = edge, linewidth = 2\<rparr>),
            ax_text (x + wd / 2) (y + ht / 2) label ''center'' ''center'' fs
              (Some ''bold'') True None None]))"

text \<open>\<^verbatim>\<open>create_arrow(start, end, ax)\<close>; \<^verbatim>\<open>colors['arrow']\<close> is looked up twice.\<close>

definition create_arrow :: "point \<Rightarrow> point \<Rightarrow> axes action" where
  "create_arrow start end =
     colors_getitem ''arrow'' (\<lambda>f.
     colors_getitem ''arrow'' (\<lambda>e.
       add_patch (ConnectionPatch
         \<lparr>xyA = start, xyB = end, coordsA = ''data'', coordsB = ''data'',
          arrowstyle = ''->'', shrinkA = 5, shrinkB = 5, mutation_scale = 20,
          fc = f, ec = e, alpha = 0.7\<rparr>)))"

subsection \<open>The figure, the file system and standard output\<close>

record figure =
  figsize :: point
  tight :: bool
  fig_ax :: axes

text \<open>
  \<^verbatim>\<open>plt.subplots(1, 1, figsize=...)\<close>: a figure with one empty axes, with matplotlib's
  initial limits and the axis decorations on.
\<close>

definition subplots :: "point \<Rightarrow> figure" where
  "subplots sz =
     \<lparr>figsize = sz, tight = False,
      fig_ax = \<lparr>xlim = (0, 1), ylim = (0, 1), axis_on = True, children = []\<rparr>\<rparr>"

definition set_xlim :: "rat \<Rightarrow> rat \<Rightarrow> axes action" where
  "set_xlim l r ax = (Inr (), ax\<lparr>xlim := (l, r)\<rparr>)"

definition set_ylim :: "rat \<Rightarrow> rat \<Rightarrow> axes action" where
  "set_ylim b t ax = (Inr (), ax\<lparr>ylim := (b, t)\<rparr>)"

definition axis_off :: "axes action" where
  "axis_off ax = (Inr (), ax\<lparr>axis_on := False\<rparr>)"

text \<open>
  What \<^verbatim>\<open>savefig\<close> leaves in a file: the figure as it was at the call and the options of
  the call. The encoding of the figure as PNG or SVG bytes is matplotlib's and is not
  part of the script.
\<close>

record saved_image =
  img_fig :: figure
  img_dpi :: "rat option"
  img_format :: "string option"
  img_bbox_inches :: string
  img_facecolor :: string
  img_edgecolor :: string

text \<open>
  The file system as far as the script meets it: the files, and for each path whether
  opening it for writing succeeds (its directory exists and is writable, the path is not
  a directory or a read-only file).
\<close>

record filesystem =
  can_write :: "string \<Rightarrow> bool"
  files :: "string \<rightharpoonup> saved_image"

text \<open>
  Standard output: the lines printed so far, and the code points that the stream's
  encoding can encode (all of them for UTF-8, only those below 256 for Latin-1). The
  encoding belongs to the environment the script is started in, as the file system does.
\<close>

record world =
  fig :: figure
  fsys :: filesystem
  stdout_encodes :: "nat \<Rightarrow> bool"
  stdout :: "ustr list"

definition on_ax :: "axes action \<Rightarrow> world action" where
  "on_ax a w =
     (case a (fig_ax (fig w)) of
        (r, ax') \<Rightarrow> (r, w\<lparr>fig := (fig w)\<lparr>fig_ax := ax'\<rparr>\<rparr>))"

definition tight_layout :: "world action" where
  "tight_layout w = (Inr (), w\<lparr>fig := (fig w)\<lparr>tight := True\<rparr>\<rparr>)"

definition savefig ::
  "string \<Rightarrow> rat option \<Rightarrow> string option \<Rightarrow> string \<Rightarrow> string \<Rightarrow> string \<Rightarrow> world action" where
  "savefig fname dpi fmt bbi fcol ecol w =
     (if can_write (fsys w) fname
      then (Inr (), w\<lparr>fsys := (fsys w)\<lparr>files := (files (fsys w))(fname \<mapsto>
              \<lparr>img_fig = fig w, img_dpi = dpi, img_format = fmt, img_bbox_inches = bbi,
               img_facecolor = fcol, img_edgecolor = ecol\<rparr>)\<rparr>\<rparr>)
      else (Inl (OSError fname), w))"

text \<open>
  \<^verbatim>\<open>print(line)\<close> writes the text and the line terminator to standard output. The
  stream encodes strictly: a code point its encoding cannot encode raises
  \<^verbatim>\<open>UnicodeEncodeError\<close>, and the line is on standard output once the call returns.
\<close>

definition unencodable :: "(nat \<Rightarrow> bool) \<Rightarrow> ustr \<Rightarrow> nat option" where
  "unencodable enc str = find (\<lambda>c. \<not> enc c) str"

definition print :: "ustr \<Rightarrow> world action" where
  "print line w =
     (case unencodable (stdout_encodes w) (line @ [0x0A]) of
        Some c \<Rightarrow> (Inl (UnicodeEncodeError c), w)
      | None \<Rightarrow> (Inr (), w\<lparr>stdout := stdout w @ [line]\<rparr>))"

subsection \<open>The script\<close>

definition frontend_y :: rat where "frontend_y = 9.5"
definition state_y :: rat where "state_y = 7.5"
definition api_y :: rat where "api_y = 5.5"
definition ai_y :: rat where "ai_y = 3.5"
definition data_y :: rat where "data_y = 1.5"

definition features_text :: ustr where
  "features_text =
     asc ''\<newline>'' @ [0x1F680] @ asc '' Key Features:\<newline>'' @
     [0x2022] @ asc '' Real-time streaming responses\<newline>'' @
     [0x2022] @ asc '' Semantic search with embeddings  \<newline>'' @
     [0x2022] @ asc '' HyDE query enhancement\<newline>'' @
     [0x2022] @ asc '' Course-specific conversations\<newline>'' @
     [0x2022] @ asc '' Two-column expandable layout\<newline>'' @
     [0x2022] @ asc '' Markdown export functionality\<newline>''"

text \<open>The title.\<close>

definition draw_title :: "axes action list" where
  "draw_title =
     [ax_text 8 11.5 (asc ''FlowMind Architecture Flow'') ''center'' ''center'' 20
        (Some ''bold'') False (Some ''#2D3748'') None]"

text \<open>Layers 1 to 5: the nineteen \<^verbatim>\<open>create_component\<close> calls, in source order.\<close>

definition draw_components :: "axes action list" where
  "draw_components =
     [create_component 1 frontend_y 2 1
        ([0x1F3A8] @ asc '' User Interface\<newline>ChatInterface'') ''frontend'' 9,
      create_component 3.5 frontend_y 2 1
        ([0x1F3E0] @ asc '' Welcome\<newline>Screen'') ''frontend'' 9,
      create_component 6 frontend_y 2 1
        ([0x1F4DA] @ asc '' Course\<newline>Selector'') ''frontend'' 9,
      create_component 8.5 frontend_y 2 1
        ([0x1F4AD] @ asc '' Messages\<newline>Container'') ''frontend'' 9,
      create_component 11 frontend_y 2 1
        ([0x1F4CB] @ asc '' Message\<newline>Detail Panel'') ''frontend'' 9,
      create_component 13.5 frontend_y 2 1
        ([0x2328, 0xFE0F] @ asc '' Chat Input\<newline>& Header'') ''frontend'' 9,
      create_component 7 state_y 2.5 1
        ([0x1F5C3, 0xFE0F] @ asc '' Zustand Store\<newline>Conversation State'') ''state'' 9,
      create_component 2 api_y 2.5 1
        ([0x1F50C] @ asc '' Chat API\<newline>/api/chat'') ''api'' 9,
      create_component 5.5 api_y 2.5 1
        ([0x1F9E0] @ asc '' RAG System\<newline>Retrieval Logic'') ''api'' 9,
      create_component 9 api_y 2.5 1
        ([0x1F4BE] @ asc '' Local RAG\<newline>Fallback'') ''api'' 9,
      create_component 12 api_y 2.5 1
        ([0x1F50D] @ asc '' Qdrant\<newline>Vector DB'') ''api'' 9,
      create_component 3 ai_y 2.5 1
        ([0x1F916] @ asc '' OpenAI API\<newline>GPT-4o-mini'') ''ai'' 9,
      create_component 6.5 ai_y 2.5 1
        ([0x1F4CA] @ asc '' Embeddings\<newline>text-embedding'') ''ai'' 9,
      create_component 10 ai_y 2.5 1
        ([0x1F4DD] @ asc '' HyDE System\<newline>Query Enhancement'') ''ai'' 9,
      create_component 2 data_y 2 1
        ([0x1F4F9] @ asc '' VTT\<newline>Transcripts'') ''data'' 9,
      create_component 4.5 data_y 2 1
        ([0x1F4E6] @ asc '' Content\<newline>Chunks'') ''data'' 9,
      create_component 7 data_y 2 1
        ([0x1F5C2, 0xFE0F] @ asc '' Vector Store\<newline>Embeddings'') ''data'' 9,
      create_component 9.5 data_y 2 1
        ([0x1F4CB] @ asc '' Metadata\<newline>Timestamps'') ''data'' 9,
      create_component 12 data_y 2.5 1
        ([0x1F3AF] @ asc '' Search Results\<newline>Relevance Scoring'') ''data'' 9]"

text \<open>The flow arrows: the twenty \<^verbatim>\<open>create_arrow\<close> calls, in source order.\<close>

definition draw_arrows :: "axes action list" where
  "draw_arrows =
     [create_arrow (2, frontend_y) (8, state_y + 1),
      create_arrow (7, frontend_y) (8, state_y + 1),
      create_arrow (9.5, frontend_y) (8.5, state_y + 1),
      create_arrow (2, frontend_y) (3, api_y + 1),
      create_arrow (14.5, frontend_y) (3.5, api_y + 1),
      create_arrow (8, state_y) (6.5, api_y + 1),
      create_arrow (3.5, api_y) (6.5, api_y + 0.5),
      create_arrow (7, api_y) (10, api_y + 0.5),
      create_arrow (8, api_y) (13, api_y + 0.5),
      create_arrow (3.5, api_y) (4, ai_y + 1),
      create_arrow (6.5, api_y) (7.5, ai_y + 1),
      create_arrow (7, api_y) (11, ai_y + 1),
      create_arrow (3, data_y + 1) (5.5, data_y + 1),
      create_arrow (5.5, data_y + 1) (8, data_y + 1),
      create_arrow (8, data_y + 1) (10.5, data_y + 1),
      create_arrow (10, data_y + 1) (13, data_y + 1),
      create_arrow (7.5, ai_y) (8, data_y + 1),
      create_arrow (11, ai_y) (13, data_y + 1),
      create_arrow (8, data_y + 1) (6.5, api_y),
      create_arrow (4, ai_y) (3, api_y)]"

text \<open>The layer labels, each coloured by a lookup in the colour table, and the legend.\<close>

definition layer_label :: "rat \<Rightarrow> ustr \<Rightarrow> string \<Rightarrow> axes action" where
  "layer_label y label k =
     colors_getitem k (\<lambda>c.
       ax_text 0.2 (y + 0.5) label ''left'' ''center'' 10 (Some ''bold'') False (Some c) None)"

definition draw_labels :: "axes action list" where
  "draw_labels =
     [layer_label frontend_y (asc ''Frontend\<newline>Layer'') ''frontend_border'',
      layer_label state_y (asc ''State\<newline>Layer'') ''state_border'',
      layer_label api_y (asc ''API\<newline>Layer'') ''api_border'',
      layer_label ai_y (asc ''AI\<newline>Services'') ''ai_border'',
      layer_label data_y (asc ''Data\<newline>Layer'') ''data_border'',
      ax_text 0.5 0.5 features_text ''left'' ''bottom'' 8 None False None
        (Some \<lparr>bb_boxstyle = ''round,pad=0.3'', bb_facecolor = ''#F7FAFC'',
               bb_edgecolor = ''#E2E8F0''\<rparr>)]"

text \<open>Everything the script does to the axes, from \<^verbatim>\<open>ax.set_xlim\<close> to the legend.\<close>

definition drawing :: "axes action list" where
  "drawing =
     [set_xlim 0 16, set_ylim 0 12, axis_off]
     @ draw_title @ draw_components @ draw_arrows @ draw_labels"

definition png_path :: string where
  "png_path = ''public/architecture-diagram.png''"

definition svg_path :: string where
  "svg_path = ''public/architecture-diagram.svg''"

definition export :: "world action list" where
  "export =
     [tight_layout,
      savefig png_path (Some 300) None ''tight'' ''white'' ''none'',
      savefig svg_path None (Some ''svg'') ''tight'' ''white'' ''none'']"

definition msg_generated :: ustr where
  "msg_generated = [0x2705] @ asc '' Architecture diagram generated successfully!''"

definition msg_saved :: ustr where
  "msg_saved = [0x1F4C1] @ asc '' Saved as: public/architecture-diagram.png & .svg''"

definition report :: "world action list" where
  "report = [print msg_generated, print msg_saved]"

text \<open>
  One run of the script in a given file system and with a given encoding of standard
  output: the figure is created, then every statement runs in order until one raises. The
  result is the exception, if any, and the world the process leaves behind.
\<close>

definition script :: "world action" where
  "script = seq (map on_ax drawing @ export @ report)"

definition run :: "filesystem \<Rightarrow> (nat \<Rightarrow> bool) \<Rightarrow> (error + unit) \<times> world" where
  "run fs0 enc =
     script \<lparr>fig = subplots (16, 12), fsys = fs0, stdout_encodes = enc, stdout = []\<rparr>"

subsection \<open>Observations and sample environments\<close>

text \<open>The node rectangles and the connector arrows among the artists of an axes, in order.\<close>

fun nodes :: "artist list \<Rightarrow> fancy_bbox_patch list" where
  "nodes [] = []"
| "nodes (FancyBboxPatch b # as) = b # nodes as"
| "nodes (ConnectionPatch c # as) = nodes as"
| "nodes (Text t # as) = nodes as"

fun connectors :: "artist list \<Rightarrow> connection_patch list" where
  "connectors [] = []"
| "connectors (FancyBboxPatch b # as) = connectors as"
| "connectors (ConnectionPatch c # as) = c # connectors as"
| "connectors (Text t # as) = connectors as"

text \<open>The axes once every drawing statement of the script has run on the fresh axes.\<close>

definition diagram :: axes where
  "diagram = snd (seq drawing (fig_ax (subplots (16, 12))))"

text \<open>
  Three file systems: one where every path can be written, one where none can (the
  directory \<^verbatim>\<open>public\<close> does not exist), and one where only the SVG path cannot (it
  is a directory, or a read-only file). Two encodings of standard output: UTF-8, which
  encodes every code point, and Latin-1, which encodes exactly those below 256.
\<close>

definition fs_ok :: filesystem where
  "fs_ok = \<lparr>can_write = (\<lambda>p. True), files = Map.empty\<rparr>"



definition utf8 :: "nat \<Rightarrow> bool" where
  "utf8 c = True"


section \<open>Properties\<close>

subsection \<open>Sequencing\<close>

lemma seq_append:
  "seq (as @ bs) st =
     (case seq as st of
        (Inl e, st') \<Rightarrow> (Inl e, st')
      | (Inr u, st') \<Rightarrow> seq bs st')"
  by (induction as arbitrary: st) (auto split: prod.splits sum.splits)

lemma seq_map_on_ax:
  "seq (map on_ax as) w =
     (case seq as (fig_ax (fig w)) of
        (r, ax') \<Rightarrow> (r, w\<lparr>fig := (fig w)\<lparr>fig_ax := ax'\<rparr>\<rparr>))"
proof (induction as arbitrary: w)
  case Nil
  show ?case by simp
next
  case (Cons a as)
  obtain r ax' where a: "a (fig_ax (fig w)) = (r, ax')"
    by (cases "a (fig_ax (fig w))")
  then have head: "on_ax a w = (r, w\<lparr>fig := (fig w)\<lparr>fig_ax := ax'\<rparr>\<rparr>)"
    by (simp add: on_ax_def)
  show ?case
  proof (cases r)
    case (Inl e)
    with a head show ?thesis by simp
  next
    case (Inr u)
    with a head show ?thesis by (simp add: Cons.IH split: prod.splits)
  qed
qed

subsection \<open>The colour table and the two helpers\<close>

lemma colors_simps:
  "colors ''frontend'' = Some ''#E8F4FD''"
  "colors ''frontend_border'' = Some ''#1976D2''"
  "colors ''state'' = Some ''#FFF3E0''"
  "colors ''state_border'' = Some ''#F57C00''"
  "colors ''api'' = Some ''#E8F5E8''"
  "colors ''api_border'' = Some ''#388E3C''"
  "colors ''ai'' = Some ''#F3E5F5''"
  "colors ''ai_border'' = Some ''#7B1FA2''"
  "colors ''data'' = Some ''#FFF8E1''"
  "colors ''data_border'' = Some ''#FBC02D''"
  "colors ''arrow'' = Some ''#666666''"
  by (simp_all add: colors_def)

lemma dom_colors:
  "dom colors =
     {''frontend'', ''frontend_border'', ''state'', ''state_border'', ''api'', ''api_border'',
      ''ai'', ''ai_border'', ''data'', ''data_border'', ''arrow''}"
  unfolding colors_def dom_map_of_conv_image_fst by auto

lemma create_component_ok:
  "colors k = Some f \<Longrightarrow> colors (k @ ''_border'') = Some e \<Longrightarrow>
   create_component x y wd ht l k fs ax =
     (Inr (), ax\<lparr>children := children ax @
        [FancyBboxPatch
           \<lparr>xy = (x, y), width = wd, height = ht, boxstyle = ''round,pad=0.05'',
            facecolor = f, edgecolor = e, linewidth = 2\<rparr>,
         Text
           \<lparr>pos = (x + wd / 2, y + ht / 2), text_s = l, ha = ''center'', va = ''center'',
            fontsize = fs, weight = Some ''bold'', wrap = True, color = None,
            bbox = None\<rparr>]\<rparr>)"
  by (simp add: create_component_def colors_getitem_def add_patch_def ax_text_def)

lemma create_component_result:
  "fst (create_component x y wd ht l k fs ax) = Inr () \<longleftrightarrow>
   k \<in> dom colors \<and> k @ ''_border'' \<in> dom colors"
  by (auto simp: create_component_def colors_getitem_def add_patch_def ax_text_def
      split: option.splits)

lemma create_arrow_eq:
  "create_arrow a b ax =
     (Inr (), ax\<lparr>children := children ax @
        [ConnectionPatch
           \<lparr>xyA = a, xyB = b, coordsA = ''data'', coordsB = ''data'',
            arrowstyle = ''->'', shrinkA = 5, shrinkB = 5, mutation_scale = 20,
            fc = ''#666666'', ec = ''#666666'', alpha = 0.7\<rparr>]\<rparr>)"
  by (simp add: create_arrow_def colors_getitem_def add_patch_def colors_simps)

lemma both_keys:
  "{k. k \<in> dom colors \<and> k @ ''_border'' \<in> dom colors} =
   {''frontend'', ''state'', ''api'', ''ai'', ''data''}"
  unfolding dom_colors by auto

subsection \<open>The drawn axes\<close>

lemmas draw_defs =
  drawing_def draw_title_def draw_components_def draw_arrows_def draw_labels_def
  layer_label_def colors_getitem_def ax_text_def set_xlim_def set_ylim_def axis_off_def
  subplots_def create_component_ok create_arrow_eq colors_simps

lemma drawing_ok: "seq drawing (fig_ax (subplots (16, 12))) = (Inr (), diagram)"
proof -
  have "fst (seq drawing (fig_ax (subplots (16, 12)))) = Inr ()"
    by (simp add: draw_defs)
  then show ?thesis
    by (simp add: diagram_def prod_eq_iff)
qed

lemma diagram_limits:
  "xlim diagram = (0, 16)" "ylim diagram = (0, 12)" "axis_on diagram = False"
  by (simp_all add: diagram_def draw_defs)

lemma node_table:
  "map (\<lambda>b. (xy b, width b, height b, facecolor b, edgecolor b)) (nodes (children diagram)) =
     [((1, 9.5), 2, 1, ''#E8F4FD'', ''#1976D2''),
      ((3.5, 9.5), 2, 1, ''#E8F4FD'', ''#1976D2''),
      ((6, 9.5), 2, 1, ''#E8F4FD'', ''#1976D2''),
      ((8.5, 9.5), 2, 1, ''#E8F4FD'', ''#1976D2''),
      ((11, 9.5), 2, 1, ''#E8F4FD'', ''#1976D2''),
      ((13.5, 9.5), 2, 1, ''#E8F4FD'', ''#1976D2''),
      ((7, 7.5), 2.5, 1, ''#FFF3E0'', ''#F57C00''),
      ((2, 5.5), 2.5, 1, ''#E8F5E8'', ''#388E3C''),
      ((5.5, 5.5), 2.5, 1, ''#E8F5E8'', ''#388E3C''),
      ((9, 5.5), 2.5, 1, ''#E8F5E8'', ''#388E3C''),
      ((12, 5.5), 2.5, 1, ''#E8F5E8'', ''#388E3C''),
      ((3, 3.5), 2.5, 1, ''#F3E5F5'', ''#7B1FA2''),
      ((6.5, 3.5), 2.5, 1, ''#F3E5F5'', ''#7B1FA2''),
      ((10, 3.5), 2.5, 1, ''#F3E5F5'', ''#7B1FA2''),
      ((2, 1.5), 2, 1, ''#FFF8E1'', ''#FBC02D''),
      ((4.5, 1.5), 2, 1, ''#FFF8E1'', ''#FBC02D''),
      ((7, 1.5), 2, 1, ''#FFF8E1'', ''#FBC02D''),
      ((9.5, 1.5), 2, 1, ''#FFF8E1'', ''#FBC02D''),
      ((12, 1.5), 2.5, 1, ''#FFF8E1'', ''#FBC02D'')]"
  by (simp add: diagram_def draw_defs frontend_y_def state_y_def api_y_def ai_y_def
      data_y_def)

lemma connector_count: "length (connectors (children diagram)) = 20"
  by (simp add: diagram_def draw_defs)

subsection \<open>One run\<close>

lemma paths_differ: "png_path \<noteq> svg_path"
  by (simp add: png_path_def svg_path_def)

lemma draw_phase:
  "seq (map on_ax drawing)
     \<lparr>fig = subplots (16, 12), fsys = fs0, stdout_encodes = enc, stdout = []\<rparr> =
     (Inr (), \<lparr>fig = \<lparr>figsize = (16, 12), tight = False, fig_ax = diagram\<rparr>,
               fsys = fs0, stdout_encodes = enc, stdout = []\<rparr>)"
proof -
  have "seq (map on_ax drawing)
      \<lparr>fig = subplots (16, 12), fsys = fs0, stdout_encodes = enc, stdout = []\<rparr> =
      (Inr (), \<lparr>fig = (subplots (16, 12))\<lparr>fig_ax := diagram\<rparr>, fsys = fs0,
                stdout_encodes = enc, stdout = []\<rparr>)"
    by (simp add: seq_map_on_ax drawing_ok)
  also have "(subplots (16, 12))\<lparr>fig_ax := diagram\<rparr> =
      \<lparr>figsize = (16, 12), tight = False, fig_ax = diagram\<rparr>"
    by (simp add: subplots_def)
  finally show ?thesis .
qed

lemma report_eq:
  "seq report w =
     (case unencodable (stdout_encodes w) (msg_generated @ [0x0A]) of
        Some c \<Rightarrow> (Inl (UnicodeEncodeError c), w)
      | None \<Rightarrow>
          (case unencodable (stdout_encodes w) (msg_saved @ [0x0A]) of
             Some c \<Rightarrow> (Inl (UnicodeEncodeError c), w\<lparr>stdout := stdout w @ [msg_generated]\<rparr>)
           | None \<Rightarrow> (Inr (), w\<lparr>stdout := stdout w @ [msg_generated, msg_saved]\<rparr>)))"
  by (simp add: report_def print_def split: option.splits)

lemma run_eq:
  "run fs0 enc =
     (let fg = \<lparr>figsize = (16, 12), tight = True, fig_ax = diagram\<rparr>;
          png = \<lparr>img_fig = fg, img_dpi = Some 300, img_format = None,
                 img_bbox_inches = ''tight'', img_facecolor = ''white'',
                 img_edgecolor = ''none''\<rparr>;
          svg = \<lparr>img_fig = fg, img_dpi = None, img_format = Some ''svg'',
                 img_bbox_inches = ''tight'', img_facecolor = ''white'',
                 img_edgecolor = ''none''\<rparr>
      in if \<not> can_write fs0 png_path
         then (Inl (OSError png_path),
               \<lparr>fig = fg, fsys = fs0, stdout_encodes = enc, stdout = []\<rparr>)
         else if \<not> can_write fs0 svg_path
         then (Inl (OSError svg_path),
               \<lparr>fig = fg, fsys = fs0\<lparr>files := (files fs0)(png_path \<mapsto> png)\<rparr>,
                stdout_encodes = enc, stdout = []\<rparr>)
         else seq report
               \<lparr>fig = fg,
                fsys = fs0\<lparr>files := (files fs0)(png_path \<mapsto> png, svg_path \<mapsto> svg)\<rparr>,
                stdout_encodes = enc, stdout = []\<rparr>)"
proof -
  have "run fs0 enc =
      seq (export @ report)
        \<lparr>fig = \<lparr>figsize = (16, 12), tight = False, fig_ax = diagram\<rparr>, fsys = fs0,
         stdout_encodes = enc, stdout = []\<rparr>"
    by (simp add: run_def script_def seq_append draw_phase)
  then show ?thesis
    by (simp add: seq_append export_def tight_layout_def savefig_def Let_def)
qed

lemma run_result:
  "fst (run fs0 enc) =
     (if \<not> can_write fs0 png_path then Inl (OSError png_path)
      else if \<not> can_write fs0 svg_path then Inl (OSError svg_path)
      else (case unencodable enc (msg_generated @ [0x0A]) of
              Some c \<Rightarrow> Inl (UnicodeEncodeError c)
            | None \<Rightarrow>
                (case unencodable enc (msg_saved @ [0x0A]) of
                   Some c \<Rightarrow> Inl (UnicodeEncodeError c)
                 | None \<Rightarrow> Inr ())))"
  by (simp add: run_eq report_eq Let_def split: option.splits)


lemma run_files:
  "files (fsys (snd (run fs0 enc))) =
     (let fg = \<lparr>figsize = (16, 12), tight = True, fig_ax = diagram\<rparr>;
          png = \<lparr>img_fig = fg, img_dpi = Some 300, img_format = None,
                 img_bbox_inches = ''tight'', img_facecolor = ''white'',
                 img_edgecolor = ''none''\<rparr>;
          svg = \<lparr>img_fig = fg, img_dpi = None, img_format = Some ''svg'',
                 img_bbox_inches = ''tight'', img_facecolor = ''white'',
                 img_edgecolor = ''none''\<rparr>
      in if \<not> can_write fs0 png_path then files fs0
         else if \<not> can_write fs0 svg_path then (files fs0)(png_path \<mapsto> png)
         else (files fs0)(png_path \<mapsto> png, svg_path \<mapsto> svg))"
  by (simp add: run_eq report_eq Let_def split: option.splits)


lemma run_ok:
  "fst (run fs0 enc) = Inr () \<longleftrightarrow>
   can_write fs0 png_path \<and> can_write fs0 svg_path \<and>
   unencodable enc (msg_generated @ [0x0A]) = None \<and>
   unencodable enc (msg_saved @ [0x0A]) = None"
  by (simp add: run_result split: option.splits)

lemma unencodable_utf8: "unencodable utf8 str = None"
  by (induction str) (simp_all add: unencodable_def utf8_def)


subsection \<open>Unfolding short replicated lists\<close>

lemma rep3: "replicate 3 x = [x, x, x]"
  by (simp add: numeral_eq_Suc)

lemma rep4: "replicate 4 x = [x, x, x, x]"
  by (simp add: numeral_eq_Suc)

lemma rep5: "replicate 5 x = [x, x, x, x, x]"
  by (simp add: numeral_eq_Suc)

lemma rep6: "replicate 6 x = [x, x, x, x, x, x]"
  by (simp add: numeral_eq_Suc)

lemma rep20:
  "replicate 20 x = [x, x, x, x, x, x, x, x, x, x, x, x, x, x, x, x, x, x, x, x]"
  by (simp add: numeral_eq_Suc)

section \<open>The claims\<close>

text \<open>
  Claim C1. The script issues exactly 19 node rectangles through \<^verbatim>\<open>create_component\<close>
  (6 frontend, 1 state, 4 API, 3 AI, 5 data) and exactly 20 connector arrows through
  \<^verbatim>\<open>create_arrow\<close>, and a run that succeeds writes a figure holding this axes, hence
  these counts, to both output files.
\<close>

theorem diagram_has_19_nodes_20_arrows:
  "length (nodes (children diagram)) = 19 \<and>
   length (connectors (children diagram)) = 20 \<and>
   map (\<lambda>k. length (filter (\<lambda>b. colors k = Some (facecolor b)) (nodes (children diagram))))
     [''frontend'', ''state'', ''api'', ''ai'', ''data''] = [6, 1, 4, 3, 5] \<and>
   (fst (run fs0 enc) = Inr () \<longrightarrow>
      (\<forall>p \<in> {png_path, svg_path}.
         \<exists>img. files (fsys (snd (run fs0 enc))) p = Some img \<and> fig_ax (img_fig img) = diagram))"
proof -
  have n: "length (nodes (children diagram)) = 19"
    using arg_cong [OF node_table, of length] by simp
  have per_layer:
    "map (\<lambda>k. length (filter (\<lambda>b. colors k = Some (facecolor b)) (nodes (children diagram))))
       [''frontend'', ''state'', ''api'', ''ai'', ''data''] = [6, 1, 4, 3, 5]"
    by (simp add: diagram_def draw_defs)
  have written: "\<forall>p \<in> {png_path, svg_path}.
      \<exists>img. files (fsys (snd (run fs0 enc))) p = Some img \<and> fig_ax (img_fig img) = diagram"
    if "fst (run fs0 enc) = Inr ()"
    using that paths_differ by (simp add: run_ok run_files Let_def)
  from n connector_count per_layer written show ?thesis by blast
qed

theorem diagram_has_19_nodes_20_arrows_witness:
  "fst (run fs_ok utf8) = Inr () \<and>
   length (nodes (children (fig_ax (img_fig (the (files (fsys (snd (run fs_ok utf8))) png_path)))))) = 19 \<and>
   length (connectors (children (fig_ax (img_fig (the (files (fsys (snd (run fs_ok utf8))) svg_path)))))) = 20"
proof -
  have ok: "fst (run fs_ok utf8) = Inr ()"
    by (simp add: run_ok fs_ok_def unencodable_utf8)
  from diagram_has_19_nodes_20_arrows [of fs_ok utf8] ok show ?thesis
    by auto
qed

text \<open>
  Claim C2. For every style key that is not in the colour table, \<^verbatim>\<open>create_component\<close>
  raises a lookup error for that key and leaves the axes exactly as it was: no patch and
  no text has been added.
\<close>

theorem create_component_unknown_key:
  "colors k = None \<Longrightarrow>
   create_component x y wd ht l k fs ax = (Inl (KeyError k), ax)"
  by (simp add: create_component_def colors_getitem_def)

theorem create_component_unknown_key_witness:
  "colors ''unknown'' = None \<and>
   create_component 1 9.5 2 1 (asc ''Node'') ''unknown'' 9 (fig_ax (subplots (16, 12))) =
     (Inl (KeyError ''unknown''), fig_ax (subplots (16, 12)))"
proof -
  have none: "colors ''unknown'' = None"
    by (simp add: colors_def)
  from create_component_unknown_key [OF none] none show ?thesis
    by simp
qed




text \<open>
  Claim C4. For every style key among frontend, state, api, ai and data,
  \<^verbatim>\<open>create_component\<close> succeeds and adds a rectangle whose fill colour is the table's
  entry for the key and whose border colour is the entry for the key followed by
  \<^verbatim>\<open>_border\<close>; no default colour is ever used.
\<close>

theorem create_component_mapped_colors:
  "k \<in> {''frontend'', ''state'', ''api'', ''ai'', ''data''} \<Longrightarrow>
   \<exists>face edge.
     colors k = Some face \<and> colors (k @ ''_border'') = Some edge \<and>
     create_component x y wd ht l k fs ax =
       (Inr (), ax\<lparr>children := children ax @
          [FancyBboxPatch
             \<lparr>xy = (x, y), width = wd, height = ht, boxstyle = ''round,pad=0.05'',
              facecolor = face, edgecolor = edge, linewidth = 2\<rparr>,
           Text
             \<lparr>pos = (x + wd / 2, y + ht / 2), text_s = l, ha = ''center'',
              va = ''center'', fontsize = fs, weight = Some ''bold'', wrap = True,
              color = None, bbox = None\<rparr>]\<rparr>)"
proof -
  assume "k \<in> {''frontend'', ''state'', ''api'', ''ai'', ''data''}"
  then have "k \<in> dom colors \<and> k @ ''_border'' \<in> dom colors"
    using both_keys by blast
  then obtain face edge where
    "colors k = Some face" "colors (k @ ''_border'') = Some edge"
    by blast
  then show ?thesis
    using create_component_ok by blast
qed

theorem create_component_mapped_colors_witness:
  "''api'' \<in> {''frontend'', ''state'', ''api'', ''ai'', ''data''} \<and>
   create_component 2 api_y 2.5 1 (asc ''Chat API'') ''api'' 9 (fig_ax (subplots (16, 12))) =
     (Inr (), (fig_ax (subplots (16, 12)))\<lparr>children :=
        [FancyBboxPatch
           \<lparr>xy = (2, api_y), width = 2.5, height = 1, boxstyle = ''round,pad=0.05'',
            facecolor = ''#E8F5E8'', edgecolor = ''#388E3C'', linewidth = 2\<rparr>,
         Text
           \<lparr>pos = (2 + 2.5 / 2, api_y + 1 / 2), text_s = asc ''Chat API'', ha = ''center'',
            va = ''center'', fontsize = 9, weight = Some ''bold'', wrap = True,
            color = None, bbox = None\<rparr>]\<rparr>)"
proof -
  have mem: "''api'' \<in> {''frontend'', ''state'', ''api'', ''ai'', ''data''}"
    by simp
  from create_component_mapped_colors [OF mem, of 2 api_y "2.5" 1 "asc ''Chat API''" 9
      "fig_ax (subplots (16, 12))"]
  show ?thesis
    by (simp add: colors_simps subplots_def)
qed

text \<open>
  Claim C6. The surface extent is \<open>[0, 16] \<times> [0, 12]\<close>, and every node the script places
  lies inside it: \<open>0 \<le> x\<close>, \<open>0 \<le> y\<close>, \<open>x + width \<le> 16\<close> and \<open>y + height \<le> 12\<close>.
\<close>

theorem nodes_within_surface:
  "b \<in> set (nodes (children diagram)) \<Longrightarrow>
   xlim diagram = (0, 16) \<and> ylim diagram = (0, 12) \<and>
   fst (xlim diagram) \<le> fst (xy b) \<and> fst (xy b) + width b \<le> snd (xlim diagram) \<and>
   fst (ylim diagram) \<le> snd (xy b) \<and> snd (xy b) + height b \<le> snd (ylim diagram)"
proof -
  assume "b \<in> set (nodes (children diagram))"
  then have "(xy b, width b, height b, facecolor b, edgecolor b) \<in>
      set (map (\<lambda>b. (xy b, width b, height b, facecolor b, edgecolor b))
        (nodes (children diagram)))"
    by simp
  then show ?thesis
    unfolding node_table by (auto simp: diagram_limits)
qed

theorem nodes_within_surface_witness:
  "\<lparr>xy = (13.5, 9.5), width = 2, height = 1, boxstyle = ''round,pad=0.05'',
     facecolor = ''#E8F4FD'', edgecolor = ''#1976D2'', linewidth = 2\<rparr>
     \<in> set (nodes (children diagram)) \<and>
   xlim diagram = (0, 16) \<and> ylim diagram = (0, 12) \<and>
   (0::rat) \<le> 13.5 \<and> (13.5::rat) + 2 \<le> 16 \<and> (0::rat) \<le> 9.5 \<and> (9.5::rat) + 1 \<le> 12"
proof -
  have mem: "\<lparr>xy = (13.5, 9.5), width = 2, height = 1, boxstyle = ''round,pad=0.05'',
      facecolor = ''#E8F4FD'', edgecolor = ''#1976D2'', linewidth = 2\<rparr>
      \<in> set (nodes (children diagram))"
    by (simp add: diagram_def draw_defs frontend_y_def)
  from nodes_within_surface [OF mem] mem show ?thesis
    by simp
qed

text \<open>
  Claim C7. The five layers are laid out top to bottom: the literal y-coordinates are
  9.5, 7.5, 5.5, 3.5 and 1.5 for frontend, state, API, AI and data, strictly decreasing,
  and the nodes are, in order, six in the frontend colour at \<open>frontend_y\<close>, one in the
  state colour at \<open>state_y\<close>, four in the API colour at \<open>api_y\<close>, three in the AI colour at
  \<open>ai_y\<close> and five in the data colour at \<open>data_y\<close>.
\<close>

theorem layers_top_to_bottom:
  "[frontend_y, state_y, api_y, ai_y, data_y] = [9.5, 7.5, 5.5, 3.5, 1.5] \<and>
   state_y < frontend_y \<and> api_y < state_y \<and> ai_y < api_y \<and> data_y < ai_y \<and>
   map (\<lambda>b. (Some (facecolor b), snd (xy b))) (nodes (children diagram)) =
     replicate 6 (colors ''frontend'', frontend_y) @
     replicate 1 (colors ''state'', state_y) @
     replicate 4 (colors ''api'', api_y) @
     replicate 3 (colors ''ai'', ai_y) @
     replicate 5 (colors ''data'', data_y)"
proof -
  have "map (\<lambda>b. (Some (facecolor b), snd (xy b))) (nodes (children diagram)) =
      map (\<lambda>(p, w, h, f, e). (Some f, snd p))
        (map (\<lambda>b. (xy b, width b, height b, facecolor b, edgecolor b))
          (nodes (children diagram)))"
    by simp
  also have "\<dots> =
      replicate 6 (colors ''frontend'', frontend_y) @
      replicate 1 (colors ''state'', state_y) @
      replicate 4 (colors ''api'', api_y) @
      replicate 3 (colors ''ai'', ai_y) @
      replicate 5 (colors ''data'', data_y)"
    unfolding node_table rep6 rep5 rep4 rep3
    by (simp add: colors_simps frontend_y_def state_y_def api_y_def ai_y_def data_y_def)
  finally show ?thesis
    by (simp add: frontend_y_def state_y_def api_y_def ai_y_def data_y_def)
qed



text \<open>
  Claim C9. Whatever the start and end points, \<^verbatim>\<open>create_arrow\<close> succeeds and adds one
  connector from the start to the end with arrow style \<^verbatim>\<open>->\<close>, shrink 5 at both ends
  and alpha 0.7.
\<close>

theorem create_arrow_fixed_style:
  "create_arrow a b ax =
     (Inr (), ax\<lparr>children := children ax @
        [ConnectionPatch
           \<lparr>xyA = a, xyB = b, coordsA = ''data'', coordsB = ''data'',
            arrowstyle = ''->'', shrinkA = 5, shrinkB = 5, mutation_scale = 20,
            fc = ''#666666'', ec = ''#666666'', alpha = 0.7\<rparr>]\<rparr>) \<and>
   map (\<lambda>c. (arrowstyle c, shrinkA c, shrinkB c, alpha c)) (connectors (children diagram)) =
     replicate 20 (''->'', 5, 5, 0.7)"
proof -
  have "map (\<lambda>c. (arrowstyle c, shrinkA c, shrinkB c, alpha c))
      (connectors (children diagram)) = replicate 20 (''->'', 5, 5, 0.7)"
    unfolding rep20 by (simp add: diagram_def draw_defs)
  then show ?thesis
    by (simp add: create_arrow_eq)
qed

text \<open>
  Claim C10. The colour table has the key \<^verbatim>\<open>arrow\<close> but no key \<^verbatim>\<open>arrow_border\<close>, so
  \<^verbatim>\<open>create_component\<close> with the key \<^verbatim>\<open>arrow\<close> fails at the border lookup. The keys
  with which \<^verbatim>\<open>create_component\<close> succeeds are exactly frontend, state, api, ai and
  data, the keys that are in the table together with their \<^verbatim>\<open>_border\<close> partner, and they
  are a proper subset of the table's keys.
\<close>

theorem create_component_success_keys:
  "{k. fst (create_component x y wd ht l k fs ax) = Inr ()} =
     {''frontend'', ''state'', ''api'', ''ai'', ''data''} \<and>
   {k. k \<in> dom colors \<and> k @ ''_border'' \<in> dom colors} =
     {''frontend'', ''state'', ''api'', ''ai'', ''data''} \<and>
   {''frontend'', ''state'', ''api'', ''ai'', ''data''} \<subset> dom colors \<and>
   ''arrow'' \<in> dom colors \<and> ''arrow_border'' \<notin> dom colors \<and>
   create_component x y wd ht l ''arrow'' fs ax = (Inl (KeyError ''arrow_border''), ax)"
proof -
  have s: "{k. fst (create_component x y wd ht l k fs ax) = Inr ()} =
      {''frontend'', ''state'', ''api'', ''ai'', ''data''}"
    by (simp only: create_component_result both_keys)
  have a1: "''arrow'' \<in> dom colors"
    unfolding dom_colors by simp
  have a2: "''arrow_border'' \<notin> dom colors"
    unfolding dom_colors by simp
  have sub: "{''frontend'', ''state'', ''api'', ''ai'', ''data''} \<subset> dom colors"
  proof (rule psubsetI)
    show "{''frontend'', ''state'', ''api'', ''ai'', ''data''} \<subseteq> dom colors"
      unfolding dom_colors by simp
    show "{''frontend'', ''state'', ''api'', ''ai'', ''data''} \<noteq> dom colors"
    proof
      assume eq: "{''frontend'', ''state'', ''api'', ''ai'', ''data''} = dom colors"
      have "''arrow'' \<in> {''frontend'', ''state'', ''api'', ''ai'', ''data''}"
        unfolding eq by (rule a1)
      then show False
        by simp
    qed
  qed
  have none: "colors ''arrow_border'' = None"
    using a2 by (simp only: domIff not_not)
  have fail: "create_component x y wd ht l ''arrow'' fs ax =
      (Inl (KeyError ''arrow_border''), ax)"
    using none by (simp add: create_component_def colors_getitem_def colors_simps)
  show ?thesis
    by (rule conjI s both_keys sub a1 a2 fail)+
qed

end
